theory Spec2Isabelle
  imports Main
begin

section \<open>Strings\<close>

text \<open>
  A Python \<open>str\<close> is a sequence of Unicode code points; a code point is a natural number.
  \<open>str\<close> turns an ASCII literal into such a sequence. The program's emoji and the en dash
  of its default prompt are written as their code points.
\<close>

type_synonym pystr = "nat list"

definition str :: "string \<Rightarrow> pystr" where
  "str cs = map of_char cs"

text \<open>
  The code points that \<open>str.strip()\<close> removes when called with no argument (CPython's
  whitespace table for \<open>str\<close>).
\<close>

definition isspace :: "nat \<Rightarrow> bool" where
  "isspace c \<longleftrightarrow>
     (0x09 \<le> c \<and> c \<le> 0x0D) \<or> (0x1C \<le> c \<and> c \<le> 0x20) \<or> c = 0x85 \<or> c = 0xA0 \<or>
     c = 0x1680 \<or> (0x2000 \<le> c \<and> c \<le> 0x200A) \<or> c = 0x2028 \<or> c = 0x2029 \<or>
     c = 0x202F \<or> c = 0x205F \<or> c = 0x3000"

definition strip :: "pystr \<Rightarrow> pystr" where
  "strip s = rev (dropWhile isspace (rev (dropWhile isspace s)))"

text \<open>\<open>s.replace(a, b)\<close> for one-character \<open>a\<close> and \<open>b\<close>.\<close>

definition replace :: "nat \<Rightarrow> nat \<Rightarrow> pystr \<Rightarrow> pystr" where
  "replace a b s = map (\<lambda>c. if c = a then b else c) s"

text \<open>UTF-8 encodes every code point but the surrogates.\<close>

definition encodable :: "pystr \<Rightarrow> bool" where
  "encodable s = list_all (\<lambda>c. c < 0xD800 \<or> 0xDFFF < c) s"

text \<open>\<open>str(n)\<close> for a length.\<close>

fun decimal :: "nat \<Rightarrow> pystr" where
  "decimal n = (if n < 10 then [0x30 + n] else decimal (n div 10) @ [0x30 + n mod 10])"

declare decimal.simps [simp del]

text \<open>\<open>os.path.join\<close> of two components and \<open>os.path.dirname\<close> (POSIX): the directory
  part is the path up to its last slash, without trailing slashes unless it consists of
  slashes only.\<close>

definition path_join :: "pystr \<Rightarrow> pystr \<Rightarrow> pystr" where
  "path_join a b =
     (if b \<noteq> [] \<and> hd b = 0x2F then b
      else if a = [] \<or> last a = 0x2F then a @ b
      else a @ [0x2F] @ b)"

definition dirname :: "pystr \<Rightarrow> pystr" where
  "dirname p =
     (let head = rev (dropWhile (\<lambda>c. c \<noteq> 0x2F) (rev p))
      in if filter (\<lambda>c. c \<noteq> 0x2F) head \<noteq> []
         then rev (dropWhile (\<lambda>c. c = 0x2F) (rev head))
         else head)"

section \<open>Constants of the program\<close>

definition DEFAULT_OLLAMA_MODEL :: pystr where
  "DEFAULT_OLLAMA_MODEL = str ''gemma3''"

definition DEFAULT_PROMPT :: pystr where
  "DEFAULT_PROMPT =
     str ''You are an assistant summarizing a YouTube transcript. '' @
     str ''Please provide a concise summary of the video and list 5'' @ [0x2013] @
     str ''7 key takeaways as bullet points. '' @
     str ''Here is the transcript:''"

definition OLLAMA_URL :: pystr where
  "OLLAMA_URL = str ''http://localhost:11434/api/generate''"

definition TRANSCRIPTS_DIR :: pystr where
  "TRANSCRIPTS_DIR = str ''transcripts''"

definition SUMMARIES_DIR :: pystr where
  "SUMMARIES_DIR = str ''summaries''"

section \<open>Values, errors, the environment and the world\<close>

text \<open>
  What the libraries hand back: a string, a dictionary, or a value of another type
  (\<open>PyOther\<close> carries the type's name). A dictionary is an association list read with
  \<open>map_of\<close>.
\<close>

datatype pyval = PyStr pystr | PyDict "(pystr \<times> pyval) list" | PyOther pystr

text \<open>Exceptions, each with the text \<open>str(e)\<close> gives.\<close>

datatype error =
    RuntimeError pystr
  | OSError pystr
  | TypeError pystr
  | AttributeError pystr
  | UnicodeEncodeError pystr
  | ServiceError pystr

fun message :: "error \<Rightarrow> pystr" where
  "message (RuntimeError m) = m"
| "message (OSError m) = m"
| "message (TypeError m) = m"
| "message (AttributeError m) = m"
| "message (UnicodeEncodeError m) = m"
| "message (ServiceError m) = m"

text \<open>A transcript snippet; the program reads its \<open>text\<close> only.\<close>

record snippet =
  "text" :: pystr

text \<open>The JSON object posted to the inference endpoint.\<close>

record payload =
  model :: pystr
  prompt :: pystr
  stream :: bool

text \<open>
  The reply of \<open>requests.post\<close>: \<open>body\<close> is \<open>response.text\<close> and \<open>json\<close> is what
  \<open>response.json()\<close> returns or raises.
\<close>

record response =
  status_code :: int
  body :: pystr
  json :: "error + pyval"

text \<open>
  The collaborators the program calls: the metadata extractor, the transcript service and
  the inference endpoint; what the operating system refuses (\<open>makedirs\<close> gives the error
  that \<open>os.makedirs(name, exist_ok=True)\<close> raises, if any, and \<open>open_error\<close> the error
  that opening a path for writing raises, if any: a name that is too long or holds a NUL
  character, a full disk); and the texts of the errors the interpreter and the operating
  system raise.
\<close>

record env =
  extract_info :: "pystr \<Rightarrow> error + pyval"
  fetch :: "pystr \<Rightarrow> error + snippet list"
  post :: "pystr \<Rightarrow> payload \<Rightarrow> error + response"
  makedirs :: "pystr \<Rightarrow> error option"
  open_error :: "pystr \<Rightarrow> error option"
  os_error_text :: "pystr \<Rightarrow> pystr"
  type_error_text :: "pyval \<Rightarrow> pystr"
  attribute_error_text :: "pyval \<Rightarrow> pystr \<Rightarrow> pystr"
  encode_error_text :: "pystr \<Rightarrow> pystr"

text \<open>
  The file store holds, for a path, the text that reading the file in text mode returns;
  \<open>Locked\<close> is anything that exists at a path and cannot be opened. Directories are not
  part of the store: creating one leaves the store as it is, and succeeds or fails as the
  environment says. Text is written as it is (POSIX). The store is keyed by the path as it is written: two path strings are
  taken to name two files. A statement that a run leaves a file untouched is therefore
  made for runs whose model name has no slash, where the paths that the run writes have
  the form \<open>directory/name\<close> and name different files when they differ.
\<close>

datatype node = Text pystr | Locked

datatype call = ExtractInfo pystr | Fetch pystr | Post pystr payload

record world =
  files :: "pystr \<rightharpoonup> node"
  stdout :: "pystr list"
  calls :: "call list"

text \<open>
  \<open>print(s)\<close> for a line that the program composes from its own text, its arguments, its
  paths and error texts: the line is added to the output, which is taken to encode it.
\<close>

definition print :: "pystr \<Rightarrow> world \<Rightarrow> world" where
  "print s w = w\<lparr>stdout := stdout w @ [s]\<rparr>"

definition called :: "call \<Rightarrow> world \<Rightarrow> world" where
  "called c w = w\<lparr>calls := calls w @ [c]\<rparr>"

definition exists :: "world \<Rightarrow> pystr \<Rightarrow> bool" where
  "exists w path \<longleftrightarrow> files w path \<noteq> None"

text \<open>\<open>with open(path, "r", encoding="utf-8") as f: f.read()\<close>. The empty path names no
  file, whatever the store holds.\<close>

definition open_read :: "env \<Rightarrow> world \<Rightarrow> pystr \<Rightarrow> error + pystr" where
  "open_read e w path =
     (if path = [] then Inl (OSError (os_error_text e path))
      else case files w path of
             Some (Text content) \<Rightarrow> Inr content
           | Some Locked \<Rightarrow> Inl (OSError (os_error_text e path))
           | None \<Rightarrow> Inl (OSError (os_error_text e path)))"

text \<open>
  \<open>print(s)\<close> for a string out of the endpoint's JSON (line 99): an escape there can give
  a surrogate code point, and then the output stream raises and prints nothing.
\<close>

definition print_text :: "env \<Rightarrow> pystr \<Rightarrow> world \<Rightarrow> (error + unit) \<times> world" where
  "print_text e s w =
     (if encodable s then (Inr (), print s w)
      else (Inl (UnicodeEncodeError (encode_error_text e s)), w))"

text \<open>
  \<open>open(path, "w", encoding="utf-8")\<close>: the file is created or emptied, unless the path
  is empty, names something that cannot be opened, or the operating system refuses it.
\<close>

definition open_write :: "env \<Rightarrow> pystr \<Rightarrow> world \<Rightarrow> (error + unit) \<times> world" where
  "open_write e path w =
     (if path = [] \<or> files w path = Some Locked
      then (Inl (OSError (os_error_text e path)), w)
      else case open_error e path of
             Some err \<Rightarrow> (Inl err, w)
           | None \<Rightarrow> (Inr (), w\<lparr>files := (files w)(path \<mapsto> Text [])\<rparr>))"

text \<open>
  \<open>f.write(s)\<close> on the file opened at \<open>path\<close>: the text is added to the file, unless
  UTF-8 cannot encode it. What was written before stays in the file, which the \<open>with\<close>
  block closes.
\<close>

definition file_write :: "env \<Rightarrow> pystr \<Rightarrow> pystr \<Rightarrow> world \<Rightarrow> (error + unit) \<times> world" where
  "file_write e path s w =
     (if encodable s
      then (Inr (),
            w\<lparr>files := (files w)(path \<mapsto>
                 Text ((case files w path of Some (Text written) \<Rightarrow> written | Some Locked \<Rightarrow> []
                        | None \<Rightarrow> []) @ s))\<rparr>)
      else (Inl (UnicodeEncodeError (encode_error_text e s)), w))"

text \<open>\<open>os.makedirs(name, exist_ok=True)\<close>; the empty name is no directory.\<close>

definition os_makedirs :: "env \<Rightarrow> pystr \<Rightarrow> error + unit" where
  "os_makedirs e name =
     (if name = [] then Inl (OSError (os_error_text e name))
      else case makedirs e name of
             Some err \<Rightarrow> Inl err
           | None \<Rightarrow> Inr ())"

section \<open>The functions of the program\<close>

text \<open>The characters of the class that \<open>re.sub\<close> deletes: backslash, slash, star,
  question mark, colon, double quote, less, greater, bar.\<close>

definition forbidden :: "nat list" where
  "forbidden = [0x5C, 0x2F, 0x2A, 0x3F, 0x3A, 0x22, 0x3C, 0x3E, 0x7C]"

definition sanitize_filename :: "pystr \<Rightarrow> pystr" where
  "sanitize_filename name =
     replace 0x20 0x5F (strip (filter (\<lambda>c. c \<notin> set forbidden) name))"

text \<open>The body of the \<open>try\<close> in \<open>get_video_title\<close>.\<close>

definition extract_title :: "env \<Rightarrow> pystr \<Rightarrow> error + pystr" where
  "extract_title e video_url =
     (case extract_info e video_url of
        Inl err \<Rightarrow> Inl err
      | Inr (PyDict info) \<Rightarrow>
          (case map_of info (str ''title'') of
             None \<Rightarrow> Inr (sanitize_filename (str ''unknown_title''))
           | Some (PyStr title) \<Rightarrow> Inr (sanitize_filename title)
           | Some v \<Rightarrow> Inl (TypeError (type_error_text e v)))
      | Inr v \<Rightarrow> Inl (AttributeError (attribute_error_text e v (str ''get''))))"

definition get_video_title :: "env \<Rightarrow> pystr \<Rightarrow> world \<Rightarrow> pystr \<times> world" where
  "get_video_title e video_url w =
     (let w1 = called (ExtractInfo video_url) w
      in case extract_title e video_url of
           Inr title \<Rightarrow> (title, w1)
         | Inl err \<Rightarrow>
             (str ''unknown_title'',
              print ([0x26A0, 0xFE0F] @ str '' Failed to fetch video title: '' @ message err) w1))"

text \<open>The loop of \<open>save_transcript\<close> on the file opened at \<open>filepath\<close>.\<close>

fun write_snippets :: "env \<Rightarrow> pystr \<Rightarrow> snippet list \<Rightarrow> world \<Rightarrow> (error + unit) \<times> world" where
  "write_snippets e filepath [] w = (Inr (), w)"
| "write_snippets e filepath (s # transcript) w =
     (case file_write e filepath (strip (text s) @ [0x20]) w of
        (Inl err, w1) \<Rightarrow> (Inl err, w1)
      | (Inr u, w1) \<Rightarrow> write_snippets e filepath transcript w1)"

definition save_transcript ::
  "env \<Rightarrow> pystr \<Rightarrow> snippet list \<Rightarrow> world \<Rightarrow> (error + unit) \<times> world" where
  "save_transcript e filepath transcript w =
     (case os_makedirs e (dirname filepath) of
        Inl err \<Rightarrow> (Inl err, w)
      | Inr d \<Rightarrow>
          (case open_write e filepath w of
             (Inl err, w1) \<Rightarrow> (Inl err, w1)
           | (Inr f, w1) \<Rightarrow>
               (case write_snippets e filepath transcript w1 of
                  (Inl err, w2) \<Rightarrow> (Inl err, w2)
                | (Inr u, w2) \<Rightarrow>
                    (Inr (), print ([0x1F4C4] @ str '' Transcript saved as '' @ filepath) w2))))"

definition load_prompt :: "env \<Rightarrow> pystr \<Rightarrow> world \<Rightarrow> pystr \<times> world" where
  "load_prompt e prompt_file w =
     (case open_read e w prompt_file of
        Inr content \<Rightarrow> (strip content, w)
      | Inl err \<Rightarrow>
          (DEFAULT_PROMPT,
           print (str ''Using default prompt instead.'')
             (print ([0x26A0, 0xFE0F] @ str '' Failed to load prompt file: '' @ message err) w)))"

definition summarize_with_ollama ::
  "env \<Rightarrow> pystr \<Rightarrow> pystr \<Rightarrow> pystr \<Rightarrow> world \<Rightarrow> (error + pystr) \<times> world" where
  "summarize_with_ollama e prompt_text transcript_text model_name w =
     (let full_prompt = prompt_text @ [0x0A, 0x0A] @ transcript_text;
          request = \<lparr>model = model_name, prompt = full_prompt, stream = False\<rparr>;
          w1 = called (Post OLLAMA_URL request) w
      in case post e OLLAMA_URL request of
           Inl err \<Rightarrow> (Inl err, w1)
         | Inr response \<Rightarrow>
             if status_code response = 200
             then (case json response of
                     Inl err \<Rightarrow> (Inl err, w1)
                   | Inr (PyDict result) \<Rightarrow>
                       (case map_of result (str ''response'') of
                          None \<Rightarrow> (Inr (strip []), w1)
                        | Some (PyStr r) \<Rightarrow> (Inr (strip r), w1)
                        | Some v \<Rightarrow>
                            (Inl (AttributeError (attribute_error_text e v (str ''strip''))), w1))
                   | Inr v \<Rightarrow>
                       (Inl (AttributeError (attribute_error_text e v (str ''get''))), w1))
             else (Inl (RuntimeError (str ''Ollama request failed: '' @ body response)), w1))"

text \<open>Lines 79 to 91 of \<open>main\<close>: the transcript is fetched and saved unless its file
  exists, then read from the file.\<close>

definition transcript_path_of :: "pystr \<Rightarrow> pystr" where
  "transcript_path_of video_title =
     path_join TRANSCRIPTS_DIR (video_title @ str ''_transcript.txt'')"

definition load_transcript ::
  "env \<Rightarrow> pystr \<Rightarrow> pystr \<Rightarrow> world \<Rightarrow> (error + pystr) \<times> world" where
  "load_transcript e video_id transcript_path w =
     (case
        (if exists w transcript_path
         then (Inr (), print ([0x1F4C1] @ str '' Found existing transcript: '' @ transcript_path) w)
         else
           let w1 = called (Fetch video_id) (print ([0x23F3] @ str '' Fetching transcript...'') w)
           in (case fetch e video_id of
                 Inl err \<Rightarrow> (Inl err, w1)
               | Inr fetched_transcript \<Rightarrow>
                   save_transcript e transcript_path fetched_transcript
                     (print ([0x2705] @ str '' Retrieved '' @ decimal (length fetched_transcript) @
                             str '' transcript snippets.'') w1)))
      of
        (Inl err, w2) \<Rightarrow> (Inl err, w2)
      | (Inr u, w2) \<Rightarrow>
          (case open_read e w2 transcript_path of
             Inl err \<Rightarrow> (Inl err, w2)
           | Inr transcript_text \<Rightarrow> (Inr transcript_text, w2)))"

text \<open>Line 94: \<open>load_prompt(prompt_file) if prompt_file else DEFAULT_PROMPT\<close>; \<open>None\<close> and
  the empty string are false.\<close>

definition choose_prompt :: "env \<Rightarrow> pystr option \<Rightarrow> world \<Rightarrow> pystr \<times> world" where
  "choose_prompt e prompt_file w =
     (case prompt_file of
        None \<Rightarrow> (DEFAULT_PROMPT, w)
      | Some p \<Rightarrow> if p = [] then (DEFAULT_PROMPT, w) else load_prompt e p w)"

definition summary_path_of :: "pystr \<Rightarrow> pystr \<Rightarrow> pystr" where
  "summary_path_of video_title ollama_model =
     path_join SUMMARIES_DIR
       (video_title @ str ''_summary_'' @ ollama_model @ str ''.txt'')"

text \<open>Lines 93 to 105 of \<open>main\<close>.\<close>

definition summarize_and_save ::
  "env \<Rightarrow> pystr \<Rightarrow> pystr option \<Rightarrow> pystr \<Rightarrow> pystr \<Rightarrow> world \<Rightarrow> (error + unit) \<times> world" where
  "summarize_and_save e video_title prompt_file ollama_model transcript_text w =
     (let (prompt_text, w1) =
            choose_prompt e prompt_file (print ([0x0A, 0x1F4E5] @ str '' Loading prompt...'') w);
          w2 = print ([0x0A, 0x1F9E0] @ str '' Sending transcript to Ollama ('' @ ollama_model @
                      str '') for summarization...'') w1
      in case summarize_with_ollama e prompt_text transcript_text ollama_model w2 of
           (Inl err, w3) \<Rightarrow> (Inl err, w3)
         | (Inr summary, w3) \<Rightarrow>
             (case print_text e summary (print ([0x0A, 0x1F4DD] @ str '' Summary:'' @ [0x0A]) w3) of
                (Inl err, w4) \<Rightarrow> (Inl err, w4)
              | (Inr u, w4) \<Rightarrow>
                  (let summary_path = summary_path_of video_title ollama_model
                   in (case os_makedirs e (dirname summary_path) of
                         Inl err \<Rightarrow> (Inl err, w4)
                       | Inr d \<Rightarrow>
                           (case open_write e summary_path w4 of
                              (Inl err, w5) \<Rightarrow> (Inl err, w5)
                            | (Inr f, w5) \<Rightarrow>
                                (case file_write e summary_path summary w5 of
                                   (Inl err, w6) \<Rightarrow> (Inl err, w6)
                                 | (Inr v, w6) \<Rightarrow>
                                     (Inr (),
                                      print ([0x0A, 0x2705] @ str '' Summary saved as '' @
                                             summary_path) w6)))))))"

text \<open>The \<open>try\<close> block of \<open>main\<close>.\<close>

definition main_try ::
  "env \<Rightarrow> pystr \<Rightarrow> pystr option \<Rightarrow> pystr \<Rightarrow> pystr \<Rightarrow> world \<Rightarrow> (error + unit) \<times> world" where
  "main_try e video_id prompt_file ollama_model video_url w =
     (let (video_title, w1) =
            get_video_title e video_url
              (print ([0x1F50D] @ str '' Fetching title for video: '' @ video_url) w);
          w2 = print ([0x1F3AC] @ str '' Video Title: '' @ replace 0x5F 0x20 video_title) w1
      in case load_transcript e video_id (transcript_path_of video_title) w2 of
           (Inl err, w3) \<Rightarrow> (Inl err, w3)
         | (Inr transcript_text, w3) \<Rightarrow>
             summarize_and_save e video_title prompt_file ollama_model transcript_text w3)"

definition watch_url :: "pystr \<Rightarrow> pystr" where
  "watch_url video_id = str ''https://www.youtube.com/watch?v='' @ video_id"

text \<open>Lines 69 and 70: the optional arguments.\<close>

definition prompt_file_arg :: "pystr list \<Rightarrow> pystr option" where
  "prompt_file_arg argv = (if length argv \<ge> 3 then Some (argv ! 2) else None)"

definition ollama_model_arg :: "pystr list \<Rightarrow> pystr" where
  "ollama_model_arg argv = (if length argv \<ge> 4 then argv ! 3 else DEFAULT_OLLAMA_MODEL)"

text \<open>\<open>main\<close> on the argument vector: the exit status of the process and the world it
  leaves. \<open>sys.exit(1)\<close> ends the run after the usage line; a run that reaches the end of
  \<open>main\<close>, through the handler or not, exits with status 0.\<close>

definition main :: "env \<Rightarrow> pystr list \<Rightarrow> world \<Rightarrow> int \<times> world" where
  "main e argv w =
     (if length argv < 2
      then (1, print (str ''Usage: python youtube_transcript_summarizer.py <video_id> [prompt_file] [ollama_model]'') w)
      else
        let video_id = argv ! 1;
            prompt_file = prompt_file_arg argv;
            ollama_model = ollama_model_arg argv;
            video_url = watch_url video_id
        in case main_try e video_id prompt_file ollama_model video_url w of
             (Inr u, w1) \<Rightarrow> (0, w1)
           | (Inl err, w1) \<Rightarrow> (0, print ([0x274C] @ str '' Error: '' @ message err) w1))"

text \<open>The sanitization as the specification words it: the nine characters are removed and
  every space becomes an underscore.\<close>

definition sanitize_spec :: "pystr \<Rightarrow> pystr" where
  "sanitize_spec name = replace 0x20 0x5F (filter (\<lambda>c. c \<notin> set forbidden) name)"

text \<open>The transcript text as the specification words it: the trimmed texts, in their
  order, joined with single spaces between them.\<close>

fun space_join :: "pystr list \<Rightarrow> pystr" where
  "space_join [] = []"
| "space_join [x] = x"
| "space_join (x # y # ys) = x @ [0x20] @ space_join (y # ys)"

definition transcript_spec :: "snippet list \<Rightarrow> pystr" where
  "transcript_spec snippets = space_join (map (\<lambda>s. strip (text s)) snippets)"

text \<open>
  When lines 79 to 91 yield a transcript: the file is there and holds text, or it is not
  there, the transcript service answers, the directory of the file can be created, the
  file can be opened for writing and UTF-8 can encode every trimmed text.
\<close>

definition transcript_available :: "env \<Rightarrow> pystr \<Rightarrow> pystr \<Rightarrow> world \<Rightarrow> bool" where
  "transcript_available e video_id video_title w =
     (case files w (transcript_path_of video_title) of
        Some (Text content) \<Rightarrow> True
      | Some Locked \<Rightarrow> False
      | None \<Rightarrow>
          (case fetch e video_id of
             Inr snippets \<Rightarrow>
               os_makedirs e (dirname (transcript_path_of video_title)) = Inr () \<and>
               open_error e (transcript_path_of video_title) = None \<and>
               list_all (\<lambda>s. encodable (strip (text s))) snippets
           | Inl err \<Rightarrow> False))"

text \<open>
  When a file can be written at a path: its directory can be created and the file can be
  opened for writing.
\<close>

definition can_write :: "env \<Rightarrow> world \<Rightarrow> pystr \<Rightarrow> bool" where
  "can_write e w path \<longleftrightarrow>
     os_makedirs e (dirname path) = Inr () \<and> open_error e path = None \<and>
     files w path \<noteq> Some Locked"

text \<open>
  When UTF-8 can encode what a run prints about itself on its way to the summary: the
  video identifier, the model name, and the title or the text of the failed title lookup.
  The statements about what a run saves are made for such runs.
\<close>

definition lines_encodable :: "env \<Rightarrow> pystr list \<Rightarrow> bool" where
  "lines_encodable e argv \<longleftrightarrow>
     encodable (argv ! 1) \<and> encodable (ollama_model_arg argv) \<and>
     (case extract_title e (watch_url (argv ! 1)) of
        Inr video_title \<Rightarrow> encodable video_title
      | Inl err \<Rightarrow> encodable (message err))"


section \<open>Example runs\<close>

text \<open>
  A video titled \<open>Intro: Part 1\<close>, a transcript service that returns the given snippets,
  an inference endpoint that gives the same reply to every request, and a run with the
  video identifier as its only argument on an empty file store.
\<close>

definition example_env :: "snippet list \<Rightarrow> response \<Rightarrow> env" where
  "example_env transcript reply =
     \<lparr>extract_info = (\<lambda>video_url. Inr (PyDict [(str ''title'', PyStr (str ''Intro: Part 1''))])),
      fetch = (\<lambda>video_id. Inr transcript),
      post = (\<lambda>url request. Inr reply),
      makedirs = (\<lambda>name. None),
      open_error = (\<lambda>path. None),
      os_error_text = (\<lambda>path. str ''[Errno 2] No such file or directory''),
      type_error_text = (\<lambda>v. str ''expected string or bytes-like object''),
      attribute_error_text = (\<lambda>v name. str ''object has no attribute '' @ name),
      encode_error_text = (\<lambda>s. str ''surrogates not allowed'')\<rparr>"

definition example_transcript :: "snippet list" where
  "example_transcript = [\<lparr>text = str '' hello ''\<rparr>, \<lparr>text = str ''world''\<rparr>]"

definition reply_with :: "int \<Rightarrow> pystr \<Rightarrow> (pystr \<times> pyval) list \<Rightarrow> response" where
  "reply_with code raw result = \<lparr>status_code = code, body = raw, json = Inr (PyDict result)\<rparr>"

definition example_argv :: "pystr list" where
  "example_argv = [str ''youtube_transcript_summarizer.py'', str ''abc123'']"

definition empty_world :: world where
  "empty_world = \<lparr>files = Map.empty, stdout = [], calls = []\<rparr>"


section \<open>Facts about strings\<close>

lemma strip_no_edge_space:
  "strip s = [] \<or> (\<not> isspace (hd (strip s)) \<and> \<not> isspace (last (strip s)))"
proof (cases "strip s = []")
  case True
  then show ?thesis by simp
next
  case False
  let ?a = "dropWhile isspace s"
  let ?b = "dropWhile isspace (rev ?a)"
  from False have b: "?b \<noteq> []" by (simp add: strip_def)
  then have a: "?a \<noteq> []" by (metis dropWhile.simps(1) rev.simps(1))
  have l: "\<not> isspace (hd ?b)" using b by (rule hd_dropWhile)
  have "last (strip s) = hd ?b" using b by (simp add: strip_def last_rev)
  with l have 1: "\<not> isspace (last (strip s))" by simp
  have "hd (strip s) = last ?b" using b by (simp add: strip_def hd_rev)
  also have "\<dots> = last (rev ?a)"
    using b by (metis last_appendR takeWhile_dropWhile_id)
  also have "\<dots> = hd ?a" using a by (simp add: last_rev)
  finally have "hd (strip s) = hd ?a" .
  moreover have "\<not> isspace (hd ?a)" using a by (rule hd_dropWhile)
  ultimately show ?thesis using 1 by simp
qed

lemma strip_fixed:
  assumes "s = [] \<or> (\<not> isspace (hd s) \<and> \<not> isspace (last s))"
  shows "strip s = s"
proof (cases "s = []")
  case True
  then show ?thesis by (simp add: strip_def)
next
  case False
  with assms have h: "\<not> isspace (hd s)" and l: "\<not> isspace (last s)" by auto
  from False h have "dropWhile isspace s = s" by (simp add: dropWhile_eq_self_iff)
  moreover from False l have "dropWhile isspace (rev s) = rev s"
    by (simp add: dropWhile_eq_self_iff hd_rev)
  ultimately show ?thesis by (simp add: strip_def)
qed

lemma strip_subset: "set (strip s) \<subseteq> set s"
proof
  fix x
  assume "x \<in> set (strip s)"
  then have "x \<in> set (dropWhile isspace (rev (dropWhile isspace s)))"
    by (simp add: strip_def)
  then have "x \<in> set (rev (dropWhile isspace s))" by (rule set_dropWhileD)
  then have "x \<in> set (dropWhile isspace s)" by simp
  then show "x \<in> set s" by (rule set_dropWhileD)
qed

lemma sanitize_chars:
  "c \<in> set (sanitize_filename s) \<Longrightarrow> c \<notin> set forbidden \<and> c \<noteq> 0x20"
proof -
  assume "c \<in> set (sanitize_filename s)"
  then obtain d where d: "d \<in> set (strip (filter (\<lambda>c. c \<notin> set forbidden) s))"
    and c: "c = (if d = 0x20 then 0x5F else d)"
    by (auto simp: sanitize_filename_def replace_def)
  from d strip_subset have "d \<in> set (filter (\<lambda>c. c \<notin> set forbidden) s)" by blast
  then have "d \<notin> set forbidden" by simp
  with c show ?thesis by (auto simp: forbidden_def)
qed

lemma filter_strip:
  "filter (\<lambda>c. c \<notin> set forbidden) (strip (filter (\<lambda>c. c \<notin> set forbidden) s)) =
   strip (filter (\<lambda>c. c \<notin> set forbidden) s)"
proof (rule filter_True)
  show "\<forall>x\<in>set (strip (filter (\<lambda>c. c \<notin> set forbidden) s)). x \<notin> set forbidden"
    using strip_subset[of "filter (\<lambda>c. c \<notin> set forbidden) s"] by auto
qed

section \<open>Sanitization\<close>

text \<open>
  Claim C3, as the specification words it, makes \<open>sanitize_filename\<close> the function
  \<open>sanitize_spec\<close>: the nine characters removed, every space turned into an underscore.
  The program trims the string between the two steps, so a leading or trailing space is
  dropped and not replaced: on \<open>" a"\<close> the program returns \<open>"a"\<close> where the
  specification's wording gives \<open>"_a"\<close>.
\<close>

theorem sanitize_filename_leading_space_counterexample:
  "sanitize_filename (str '' a'') \<noteq> sanitize_spec (str '' a'')"
  by (simp add: sanitize_filename_def sanitize_spec_def replace_def strip_def isspace_def
      forbidden_def str_def)

text \<open>
  Claim C3, amended: \<open>sanitize_filename\<close> removes every occurrence of the nine
  characters, trims leading and trailing whitespace, and replaces every space that is left
  with an underscore; the result holds none of the nine characters and no space.
\<close>

theorem sanitize_filename_trims_then_replaces:
  "sanitize_filename s = sanitize_spec (strip (filter (\<lambda>c. c \<notin> set forbidden) s)) \<and>
   set (sanitize_filename s) \<inter> (set forbidden \<union> {0x20}) = {}"
proof -
  have "sanitize_filename s = sanitize_spec (strip (filter (\<lambda>c. c \<notin> set forbidden) s))"
    by (simp add: sanitize_filename_def sanitize_spec_def filter_strip)
  moreover have "set (sanitize_filename s) \<inter> (set forbidden \<union> {0x20}) = {}"
    using sanitize_chars[of _ s] by auto
  ultimately show ?thesis by simp
qed

text \<open>
  Claim C10: \<open>sanitize_filename\<close> is idempotent.
\<close>

theorem sanitize_filename_idempotent: "sanitize_filename (sanitize_filename s) = sanitize_filename s"
proof -
  let ?t = "strip (filter (\<lambda>c. c \<notin> set forbidden) s)"
  let ?u = "sanitize_filename s"
  have u: "?u = replace 0x20 0x5F ?t" by (simp add: sanitize_filename_def)
  have ok: "filter (\<lambda>c. c \<notin> set forbidden) ?u = ?u"
    using sanitize_chars by (simp add: filter_id_conv)
  have edge: "?u = [] \<or> (\<not> isspace (hd ?u) \<and> \<not> isspace (last ?u))"
  proof (cases "?t = []")
    case True
    then show ?thesis by (simp add: u replace_def)
  next
    case False
    with strip_no_edge_space[of "filter (\<lambda>c. c \<notin> set forbidden) s"]
    have h: "\<not> isspace (hd ?t)" and l: "\<not> isspace (last ?t)" by auto
    have sp: "isspace 0x20" by (simp add: isspace_def)
    from h sp have "hd ?t \<noteq> 0x20" by auto
    then have "hd ?u = hd ?t" using False by (simp add: u replace_def hd_map)
    moreover from l sp have "last ?t \<noteq> 0x20" by auto
    then have "last ?u = last ?t" using False by (simp add: u replace_def last_map)
    ultimately show ?thesis using h l by simp
  qed
  have nosp: "replace 0x20 0x5F ?u = ?u"
    using sanitize_chars[of _ s] by (auto simp: replace_def map_idI)
  show ?thesis
    using ok strip_fixed[OF edge] nosp
    by (simp add: sanitize_filename_def[of "sanitize_filename s"])
qed


section \<open>Effects of the stages on the world\<close>

lemma files_print [simp]: "files (print s w) = files w"
  by (simp add: print_def)

lemma calls_print [simp]: "calls (print s w) = calls w"
  by (simp add: print_def)

lemma stdout_print [simp]: "stdout (print s w) = stdout w @ [s]"
  by (simp add: print_def)

lemma files_called [simp]: "files (called c w) = files w"
  by (simp add: called_def)

lemma calls_called [simp]: "calls (called c w) = calls w @ [c]"
  by (simp add: called_def)

lemma stdout_called [simp]: "stdout (called c w) = stdout w"
  by (simp add: called_def)

lemma open_read_files: "files w' = files w \<Longrightarrow> open_read e w' path = open_read e w path"
  by (simp add: open_read_def)

lemma open_read_print [simp]: "open_read e (print s w) path = open_read e w path"
  by (rule open_read_files) simp

lemma open_read_called [simp]: "open_read e (called c w) path = open_read e w path"
  by (rule open_read_files) simp

subsection \<open>The title\<close>

lemma fst_get_video_title_world:
  "fst (get_video_title e u w') = fst (get_video_title e u w)"
  by (simp add: get_video_title_def Let_def split: sum.splits)

lemma fst_get_video_title_print [simp]:
  "fst (get_video_title e u (print s w)) = fst (get_video_title e u w)"
  by (rule fst_get_video_title_world)

lemma files_get_video_title [simp]: "files (snd (get_video_title e u w)) = files w"
  by (simp add: get_video_title_def Let_def split: sum.splits)

lemma calls_get_video_title [simp]:
  "calls (snd (get_video_title e u w)) = calls w @ [ExtractInfo u]"
  by (simp add: get_video_title_def Let_def split: sum.splits)

lemma unknown_title_sanitized:
  "sanitize_filename (str ''unknown_title'') = str ''unknown_title''"
  by (simp add: sanitize_filename_def replace_def strip_def isspace_def forbidden_def str_def)

lemma sanitize_no_slash: "0x2F \<notin> set (sanitize_filename s)"
  using sanitize_chars[of "0x2F" s] by (auto simp: forbidden_def)

lemma title_no_slash: "0x2F \<notin> set (fst (get_video_title e u w))"
proof (cases "extract_title e u")
  case (Inl err)
  then show ?thesis by (simp add: get_video_title_def Let_def str_def)
next
  case (Inr t)
  then have "t = sanitize_filename (str ''unknown_title'') \<or> (\<exists>x. t = sanitize_filename x)"
    by (auto simp: extract_title_def split: sum.splits pyval.splits option.splits)
  then have "0x2F \<notin> set t" using sanitize_no_slash by auto
  with Inr show ?thesis by (simp add: get_video_title_def Let_def)
qed

subsection \<open>Paths\<close>

lemma hd_transcript_path:
  "hd (transcript_path_of t) = (if t \<noteq> [] \<and> hd t = 0x2F then 0x2F else 0x74)"
  by (simp add: transcript_path_of_def path_join_def TRANSCRIPTS_DIR_def str_def hd_append)

lemma hd_summary_path:
  "hd (summary_path_of t m) = (if t \<noteq> [] \<and> hd t = 0x2F then 0x2F else 0x73)"
  by (simp add: summary_path_of_def path_join_def SUMMARIES_DIR_def str_def hd_append)

lemma transcript_path_nonempty [simp]: "transcript_path_of t \<noteq> []"
  by (simp add: transcript_path_of_def path_join_def TRANSCRIPTS_DIR_def str_def)

lemma summary_path_nonempty [simp]: "summary_path_of t m \<noteq> []"
  by (simp add: summary_path_of_def path_join_def SUMMARIES_DIR_def str_def)

lemma no_slash_hd: "0x2F \<notin> set t \<Longrightarrow> \<not> (t \<noteq> [] \<and> hd t = 0x2F)"
  by (cases t) auto


lemma summary_not_run_transcript:
  assumes "0x2F \<notin> set T"
  shows "summary_path_of t m \<noteq> transcript_path_of T"
proof
  assume "summary_path_of t m = transcript_path_of T"
  then have "hd (summary_path_of t m) = hd (transcript_path_of T)" by simp
  then show False
    using no_slash_hd[OF assms] by (simp add: hd_transcript_path hd_summary_path split: if_splits)
qed

lemma run_paths_differ:
  "summary_path_of (fst (get_video_title e u w)) m \<noteq>
   transcript_path_of (fst (get_video_title e u w))"
  using summary_not_run_transcript[OF title_no_slash] .

subsection \<open>The transcript\<close>

lemma concat_space_join:
  "concat (map (\<lambda>x. x @ [0x20]) xs) = (if xs = [] then [] else space_join xs @ [0x20])"
  by (induction xs rule: space_join.induct) simp_all

lemma encodable_append [simp]: "encodable (a @ b) \<longleftrightarrow> encodable a \<and> encodable b"
  by (simp add: encodable_def)

lemma encodable_space [simp]: "encodable [0x20]"
  by (simp add: encodable_def)

lemma encodable_Nil [simp]: "encodable []"
  by (simp add: encodable_def)

lemma files_print_text_kept [simp]: "files (snd (print_text e s w)) = files w"
  by (simp add: print_text_def)

lemma calls_print_text_kept [simp]: "calls (snd (print_text e s w)) = calls w"
  by (simp add: print_text_def)

lemma files_open_write_other:
  "q \<noteq> p \<Longrightarrow> files (snd (open_write e p w)) q = files w q"
  by (simp add: open_write_def split: option.splits)

lemma calls_open_write [simp]: "calls (snd (open_write e p w)) = calls w"
  by (simp add: open_write_def split: option.splits)

lemma open_write_no_lock:
  "files w q \<noteq> Some Locked \<Longrightarrow> files (snd (open_write e p w)) q \<noteq> Some Locked"
  by (simp add: open_write_def split: option.splits)

lemma files_file_write_other:
  "q \<noteq> p \<Longrightarrow> files (snd (file_write e p s w)) q = files w q"
  by (simp add: file_write_def)

lemma calls_file_write [simp]: "calls (snd (file_write e p s w)) = calls w"
  by (simp add: file_write_def)

lemma file_write_no_lock:
  "files w q \<noteq> Some Locked \<Longrightarrow> files (snd (file_write e p s w)) q \<noteq> Some Locked"
  by (simp add: file_write_def)

lemma files_write_snippets_other:
  "q \<noteq> p \<Longrightarrow> files (snd (write_snippets e p sn w)) q = files w q"
proof (induction sn arbitrary: w)
  case Nil
  then show ?case by simp
next
  case (Cons s sn)
  show ?case
  proof (cases "fst (file_write e p (strip (text s) @ [0x20]) w)")
    case (Inl err)
    then show ?thesis
      using files_file_write_other[OF Cons.prems] by (simp add: case_prod_beta)
  next
    case (Inr u)
    then show ?thesis
      using Cons.IH[OF Cons.prems] files_file_write_other[OF Cons.prems]
      by (simp add: case_prod_beta)
  qed
qed

lemma calls_write_snippets [simp]: "calls (snd (write_snippets e p sn w)) = calls w"
proof (induction sn arbitrary: w)
  case Nil
  then show ?case by simp
next
  case (Cons s sn)
  show ?case
    by (cases "fst (file_write e p (strip (text s) @ [0x20]) w)")
       (simp_all add: case_prod_beta Cons.IH)
qed

lemma write_snippets_no_lock:
  "files w q \<noteq> Some Locked \<Longrightarrow> files (snd (write_snippets e p sn w)) q \<noteq> Some Locked"
proof (induction sn arbitrary: w)
  case Nil
  then show ?case by simp
next
  case (Cons s sn)
  have k: "files (snd (file_write e p (strip (text s) @ [0x20]) w)) q \<noteq> Some Locked"
    using Cons.prems by (rule file_write_no_lock)
  show ?case
    by (cases "fst (file_write e p (strip (text s) @ [0x20]) w)")
       (use k Cons.IH[OF k] in \<open>simp_all add: case_prod_beta\<close>)
qed

lemma write_snippets_done:
  assumes "list_all (\<lambda>s. encodable (strip (text s))) sn"
    and "files w p = Some (Text written)"
  shows "fst (write_snippets e p sn w) = Inr () \<and>
         files (snd (write_snippets e p sn w)) =
           (files w)(p \<mapsto> Text (written @ concat (map (\<lambda>s. strip (text s) @ [0x20]) sn)))"
  using assms
proof (induction sn arbitrary: w written)
  case Nil
  then show ?case by (simp add: fun_upd_idem)
next
  case (Cons s sn)
  let ?w1 = "snd (file_write e p (strip (text s) @ [0x20]) w)"
  from Cons.prems have enc: "encodable (strip (text s))"
    and rest: "list_all (\<lambda>s. encodable (strip (text s))) sn" by simp_all
  have f: "fst (file_write e p (strip (text s) @ [0x20]) w) = Inr ()"
    using enc by (simp add: file_write_def)
  have w1: "files ?w1 = (files w)(p \<mapsto> Text (written @ strip (text s) @ [0x20]))"
    using enc Cons.prems(2) by (simp add: file_write_def)
  then have "files ?w1 p = Some (Text (written @ strip (text s) @ [0x20]))" by simp
  from Cons.IH[OF rest this]
  have "fst (write_snippets e p sn ?w1) = Inr () \<and>
        files (snd (write_snippets e p sn ?w1)) =
          (files ?w1)(p \<mapsto> Text ((written @ strip (text s) @ [0x20]) @
             concat (map (\<lambda>s. strip (text s) @ [0x20]) sn)))" .
  then show ?case using f w1 by (simp add: case_prod_beta)
qed

lemma load_transcript_hit:
  assumes "files w p = Some n" and "p \<noteq> []"
  shows "load_transcript e vid p w =
           ((case n of Text c \<Rightarrow> Inr c | Locked \<Rightarrow> Inl (OSError (os_error_text e p))),
            print ([0x1F4C1] @ str '' Found existing transcript: '' @ p) w)"
  using assms by (simp add: load_transcript_def exists_def open_read_def split: node.splits)

lemma save_transcript_done:
  assumes "files w p = None" and "p \<noteq> []"
    and "os_makedirs e (dirname p) = Inr ()"
    and "open_error e p = None"
    and "list_all (\<lambda>s. encodable (strip (text s))) sn"
  shows "fst (save_transcript e p sn w) = Inr ()"
    and "files (snd (save_transcript e p sn w)) =
           (files w)(p \<mapsto> Text (concat (map (\<lambda>s. strip (text s) @ [0x20]) sn)))"
proof -
  let ?w2 = "snd (open_write e p w)"
  have o: "fst (open_write e p w) = Inr ()" and f2: "files ?w2 = (files w)(p \<mapsto> Text [])"
    using assms(1,2,4) by (simp_all add: open_write_def)
  then have "files ?w2 p = Some (Text [])" by simp
  from write_snippets_done[OF assms(5) this, of e]
  have ws: "fst (write_snippets e p sn ?w2) = Inr ()"
    and wf: "files (snd (write_snippets e p sn ?w2)) =
           (files w)(p \<mapsto> Text (concat (map (\<lambda>s. strip (text s) @ [0x20]) sn)))"
    using f2 by simp_all
  show "fst (save_transcript e p sn w) = Inr ()"
    using assms(3) o ws by (simp add: save_transcript_def case_prod_beta)
  show "files (snd (save_transcript e p sn w)) =
           (files w)(p \<mapsto> Text (concat (map (\<lambda>s. strip (text s) @ [0x20]) sn)))"
    using assms(3) o ws wf by (simp add: save_transcript_def case_prod_beta)
qed

lemma load_transcript_miss_fetched:
  assumes "files w p = None" and "p \<noteq> []" and "fetch e vid = Inr sn"
    and "os_makedirs e (dirname p) = Inr ()"
    and "open_error e p = None"
    and "list_all (\<lambda>s. encodable (strip (text s))) sn"
  shows "fst (load_transcript e vid p w) =
           Inr (concat (map (\<lambda>s. strip (text s) @ [0x20]) sn))"
    and "files (snd (load_transcript e vid p w)) =
           (files w)(p \<mapsto> Text (concat (map (\<lambda>s. strip (text s) @ [0x20]) sn)))"
proof -
  have 1: "fst (save_transcript e p sn w') = Inr ()" if "files w' = files w" for w'
    using that assms(1,2,4-6) by (intro save_transcript_done(1)) simp_all
  have 2: "files (snd (save_transcript e p sn w')) =
           (files w)(p \<mapsto> Text (concat (map (\<lambda>s. strip (text s) @ [0x20]) sn)))"
    if "files w' = files w" for w'
    using that assms(1,2,4-6) save_transcript_done(2)[of w' p e sn] by simp
  show "fst (load_transcript e vid p w) =
           Inr (concat (map (\<lambda>s. strip (text s) @ [0x20]) sn))"
    using assms(1-3)
    by (simp add: load_transcript_def exists_def Let_def case_prod_beta 1 2 open_read_def)
  show "files (snd (load_transcript e vid p w)) =
           (files w)(p \<mapsto> Text (concat (map (\<lambda>s. strip (text s) @ [0x20]) sn)))"
    using assms(1-3)
    by (simp add: load_transcript_def exists_def Let_def case_prod_beta 1 2 open_read_def)
qed

lemma files_save_transcript_other:
  assumes "q \<noteq> p"
  shows "files (snd (save_transcript e p sn w)) q = files w q"
proof -
  have 1: "files (snd (open_write e p w)) q = files w q"
    using assms by (rule files_open_write_other)
  have 2: "files (snd (write_snippets e p sn (snd (open_write e p w)))) q = files w q"
    using files_write_snippets_other[OF assms] 1 by simp
  show ?thesis
    using 1 2 by (simp add: save_transcript_def case_prod_beta split: sum.splits)
qed

lemma save_transcript_no_lock:
  assumes "files w q \<noteq> Some Locked"
  shows "files (snd (save_transcript e p sn w)) q \<noteq> Some Locked"
proof -
  have 1: "files (snd (open_write e p w)) q \<noteq> Some Locked"
    using assms by (rule open_write_no_lock)
  have 2: "files (snd (write_snippets e p sn (snd (open_write e p w)))) q \<noteq> Some Locked"
    using 1 by (rule write_snippets_no_lock)
  show ?thesis
    using assms 1 2 by (simp add: save_transcript_def case_prod_beta split: sum.splits)
qed

lemma files_load_transcript_other:
  assumes "q \<noteq> p"
  shows "files (snd (load_transcript e vid p w)) q = files w q"
  using files_save_transcript_other[OF assms, of e]
  by (simp add: load_transcript_def exists_def Let_def case_prod_beta
      split: sum.splits)


lemma load_transcript_no_lock:
  assumes "files w q \<noteq> Some Locked"
  shows "files (snd (load_transcript e vid p w)) q \<noteq> Some Locked"
  using assms save_transcript_no_lock[of _ q e p]
  by (simp add: load_transcript_def exists_def Let_def case_prod_beta
      split: sum.splits)

lemma load_transcript_available:
  assumes "transcript_available e vid title w"
  shows "\<exists>tt. fst (load_transcript e vid (transcript_path_of title) w) = Inr tt"
proof (cases "files w (transcript_path_of title)")
  case None
  with assms obtain sn where "fetch e vid = Inr sn"
    and "os_makedirs e (dirname (transcript_path_of title)) = Inr ()"
    and "open_error e (transcript_path_of title) = None"
    and "list_all (\<lambda>s. encodable (strip (text s))) sn"
    by (auto simp: transcript_available_def split: sum.splits)
  with None show ?thesis
    using load_transcript_miss_fetched(1)[of w "transcript_path_of title" e vid sn] by simp
next
  case (Some n)
  with assms obtain c where "n = Text c"
    by (auto simp: transcript_available_def split: node.splits)
  with Some show ?thesis by (simp add: load_transcript_hit)
qed

lemma transcript_available_files:
  "files w' = files w \<Longrightarrow> transcript_available e vid title w' = transcript_available e vid title w"
  by (simp add: transcript_available_def)

subsection \<open>The prompt\<close>

lemma files_choose_prompt [simp]: "files (snd (choose_prompt e pf w)) = files w"
  by (simp add: choose_prompt_def load_prompt_def split: option.splits sum.splits)

lemma calls_choose_prompt [simp]: "calls (snd (choose_prompt e pf w)) = calls w"
  by (simp add: choose_prompt_def load_prompt_def split: option.splits sum.splits)

lemma fst_choose_prompt_files:
  "files w' = files w \<Longrightarrow> fst (choose_prompt e pf w') = fst (choose_prompt e pf w)"
  by (simp add: choose_prompt_def load_prompt_def open_read_files[of w' w]
      split: option.splits sum.splits)

subsection \<open>The summary\<close>

lemma snd_summarize_with_ollama [simp]:
  "snd (summarize_with_ollama e p t m w) =
     called (Post OLLAMA_URL \<lparr>model = m, prompt = p @ [0x0A, 0x0A] @ t, stream = False\<rparr>) w"
  by (simp add: summarize_with_ollama_def Let_def
      split: sum.splits pyval.splits option.splits)

lemma fst_summarize_with_ollama_world:
  "fst (summarize_with_ollama e p t m w') = fst (summarize_with_ollama e p t m w)"
  by (simp add: summarize_with_ollama_def Let_def
      split: sum.splits pyval.splits option.splits)


lemma fst_summarize_response:
  assumes "\<And>request. post e OLLAMA_URL request = Inr r"
    and "status_code r = 200" and "json r = Inr (PyDict d)"
    and "map_of d (str ''response'') = Some (PyStr s)"
  shows "fst (summarize_with_ollama e p t m w) = Inr (strip s)"
  using assms by (simp add: summarize_with_ollama_def Let_def)

lemma fst_summarize_no_response:
  assumes "\<And>request. post e OLLAMA_URL request = Inr r"
    and "status_code r = 200" and "json r = Inr (PyDict d)"
    and "map_of d (str ''response'') = None"
  shows "fst (summarize_with_ollama e p t m w) = Inr []"
  using assms by (simp add: summarize_with_ollama_def Let_def strip_def)


lemma files_summarize_and_save_other:
  assumes "q \<noteq> summary_path_of T m"
  shows "files (snd (summarize_and_save e T pf m tt w)) q = files w q"
  using files_open_write_other[OF assms, of e] files_file_write_other[OF assms, of e]
  by (simp add: summarize_and_save_def Let_def case_prod_beta split: sum.splits)


lemma summarize_and_save_done:
  assumes "fst (summarize_with_ollama e (fst (choose_prompt e pf w)) tt m w0) = Inr s"
    and "encodable s"
    and "can_write e w (summary_path_of T m)"
  shows "fst (summarize_and_save e T pf m tt w) = Inr ()"
    and "files (snd (summarize_and_save e T pf m tt w)) =
           (files w)(summary_path_of T m \<mapsto> Text s)"
    and "last (stdout (snd (summarize_and_save e T pf m tt w))) =
           [0x0A, 0x2705] @ str '' Summary saved as '' @ summary_path_of T m"
proof -
  have p: "fst (choose_prompt e pf (print x w)) = fst (choose_prompt e pf w)" for x
    by (rule fst_choose_prompt_files) simp
  have f: "fst (summarize_with_ollama e (fst (choose_prompt e pf w)) tt m w') = Inr s" for w'
    using assms(1) fst_summarize_with_ollama_world[of e _ tt m w' w0] by simp
  from assms(3) have d: "os_makedirs e (dirname (summary_path_of T m)) = Inr ()"
    and o: "open_error e (summary_path_of T m) = None"
    and l: "files w (summary_path_of T m) \<noteq> Some Locked"
    by (simp_all add: can_write_def)
  show "fst (summarize_and_save e T pf m tt w) = Inr ()"
    using assms(2) d o l
    by (simp add: summarize_and_save_def Let_def case_prod_beta p f print_text_def
        open_write_def file_write_def)
  show "files (snd (summarize_and_save e T pf m tt w)) =
           (files w)(summary_path_of T m \<mapsto> Text s)"
    using assms(2) d o l
    by (simp add: summarize_and_save_def Let_def case_prod_beta p f print_text_def
        open_write_def file_write_def)
  show "last (stdout (snd (summarize_and_save e T pf m tt w))) =
           [0x0A, 0x2705] @ str '' Summary saved as '' @ summary_path_of T m"
    using assms(2) d o l
    by (simp add: summarize_and_save_def Let_def case_prod_beta p f print_text_def
        open_write_def file_write_def)
qed

section \<open>The run as a whole\<close>

lemma main_try_stages:
  "\<exists>w2. files w2 = files w \<and> calls w2 = calls w @ [ExtractInfo url] \<and>
     main_try e vid pf m url w =
       (case load_transcript e vid (transcript_path_of (fst (get_video_title e url w))) w2 of
          (Inl err, w3) \<Rightarrow> (Inl err, w3)
        | (Inr tt, w3) \<Rightarrow> summarize_and_save e (fst (get_video_title e url w)) pf m tt w3)"
proof -
  let ?w1 = "print ([0x1F50D] @ str '' Fetching title for video: '' @ url) w"
  let ?T = "fst (get_video_title e url w)"
  let ?w2 = "print ([0x1F3AC] @ str '' Video Title: '' @ replace 0x5F 0x20 ?T)
               (snd (get_video_title e url ?w1))"
  have "files ?w2 = files w" by simp
  moreover have "calls ?w2 = calls w @ [ExtractInfo url]" by simp
  moreover have "main_try e vid pf m url w =
       (case load_transcript e vid (transcript_path_of ?T) ?w2 of
          (Inl err, w3) \<Rightarrow> (Inl err, w3)
        | (Inr tt, w3) \<Rightarrow> summarize_and_save e ?T pf m tt w3)"
    by (simp add: main_try_def Let_def case_prod_beta cong: sum.case_cong)
  ultimately show ?thesis by blast
qed

lemma main_run:
  assumes "2 \<le> length argv"
  shows "main e argv w =
           (case main_try e (argv ! 1) (prompt_file_arg argv) (ollama_model_arg argv)
                   (watch_url (argv ! 1)) w of
              (Inr u, w1) \<Rightarrow> (0, w1)
            | (Inl err, w1) \<Rightarrow> (0, print ([0x274C] @ str '' Error: '' @ message err) w1))"
  using assms by (simp add: main_def Let_def)

lemma main_exit:
  assumes "2 \<le> length argv"
  shows "fst (main e argv w) = 0"
  by (simp add: main_run[OF assms] case_prod_beta split: sum.splits)

lemma files_main:
  assumes "2 \<le> length argv"
  shows "files (snd (main e argv w)) =
           files (snd (main_try e (argv ! 1) (prompt_file_arg argv) (ollama_model_arg argv)
                   (watch_url (argv ! 1)) w))"
  by (simp add: main_run[OF assms] case_prod_beta split: sum.splits)



lemma stdout_main_done:
  assumes "2 \<le> length argv"
    and "fst (main_try e (argv ! 1) (prompt_file_arg argv) (ollama_model_arg argv)
                   (watch_url (argv ! 1)) w) = Inr u"
  shows "stdout (snd (main e argv w)) =
           stdout (snd (main_try e (argv ! 1) (prompt_file_arg argv) (ollama_model_arg argv)
                   (watch_url (argv ! 1)) w))"
  using assms(2) by (simp add: main_run[OF assms(1)] case_prod_beta)

lemma files_main_short:
  assumes "length argv < 2"
  shows "files (snd (main e argv w)) = files w"
  using assms by (simp add: main_def)


lemma main_try_available:
  assumes "transcript_available e vid (fst (get_video_title e url w)) w"
  shows "\<exists>tt w3. main_try e vid pf m url w =
           summarize_and_save e (fst (get_video_title e url w)) pf m tt w3 \<and>
           (\<forall>q. q \<noteq> transcript_path_of (fst (get_video_title e url w)) \<longrightarrow>
                files w3 q = files w q) \<and>
           (\<forall>q. files w q \<noteq> Some Locked \<longrightarrow> files w3 q \<noteq> Some Locked)"
proof -
  let ?T = "fst (get_video_title e url w)"
  obtain w2 where f: "files w2 = files w"
    and mt: "main_try e vid pf m url w =
       (case load_transcript e vid (transcript_path_of ?T) w2 of
          (Inl err, w3) \<Rightarrow> (Inl err, w3)
        | (Inr tt, w3) \<Rightarrow> summarize_and_save e ?T pf m tt w3)"
    using main_try_stages[of w url e vid pf m] by blast
  let ?L = "load_transcript e vid (transcript_path_of ?T) w2"
  have "transcript_available e vid ?T w2"
    using assms transcript_available_files[OF f] by simp
  then obtain tt where tt: "fst ?L = Inr tt"
    using load_transcript_available by blast
  then have "main_try e vid pf m url w = summarize_and_save e ?T pf m tt (snd ?L)"
    by (simp add: mt case_prod_beta)
  moreover have "\<forall>q. q \<noteq> transcript_path_of ?T \<longrightarrow> files (snd ?L) q = files w q"
    using files_load_transcript_other[of _ "transcript_path_of ?T" e vid w2] f by simp
  moreover have "\<forall>q. files w q \<noteq> Some Locked \<longrightarrow> files (snd ?L) q \<noteq> Some Locked"
    using load_transcript_no_lock[of w2 _ e vid "transcript_path_of ?T"] f by simp
  ultimately show ?thesis by blast
qed

lemma main_try_summarized:
  assumes "title = fst (get_video_title e url w)"
    and "transcript_available e vid title w"
    and "\<And>p t w0. fst (summarize_with_ollama e p t m w0) = Inr s"
    and "encodable s"
    and "can_write e w (summary_path_of title m)"
  shows "fst (main_try e vid pf m url w) = Inr ()"
    and "files (snd (main_try e vid pf m url w)) (summary_path_of title m) = Some (Text s)"
    and "last (stdout (snd (main_try e vid pf m url w))) =
           [0x0A, 0x2705] @ str '' Summary saved as '' @ summary_path_of title m"
proof -
  obtain tt w3 where mt: "main_try e vid pf m url w = summarize_and_save e title pf m tt w3"
    and lk: "\<forall>q. files w q \<noteq> Some Locked \<longrightarrow> files w3 q \<noteq> Some Locked"
    unfolding assms(1) using main_try_available[of e vid url w pf m] assms(2)[unfolded assms(1)]
    by blast
  have s: "fst (summarize_with_ollama e (fst (choose_prompt e pf w3)) tt m w3) = Inr s"
    by (rule assms(3))
  have l: "can_write e w3 (summary_path_of title m)"
    using lk assms(5) by (simp add: can_write_def)
  show "fst (main_try e vid pf m url w) = Inr ()"
    unfolding mt using s assms(4) l by (rule summarize_and_save_done(1))
  have "files (snd (summarize_and_save e title pf m tt w3)) =
          (files w3)(summary_path_of title m \<mapsto> Text s)"
    using s assms(4) l by (rule summarize_and_save_done(2))
  then show "files (snd (main_try e vid pf m url w)) (summary_path_of title m) = Some (Text s)"
    by (simp add: mt)
  show "last (stdout (snd (main_try e vid pf m url w))) =
           [0x0A, 0x2705] @ str '' Summary saved as '' @ summary_path_of title m"
    unfolding mt using s assms(4) l by (rule summarize_and_save_done(3))
qed




lemma main_try_transcript_saved:
  assumes "title = fst (get_video_title e url w)"
    and "files w (transcript_path_of title) = None"
    and "fetch e vid = Inr snippets"
    and "os_makedirs e (dirname (transcript_path_of title)) = Inr ()"
    and "open_error e (transcript_path_of title) = None"
    and "list_all (\<lambda>s. encodable (strip (text s))) snippets"
  shows "files (snd (main_try e vid pf m url w)) (transcript_path_of title) =
           Some (Text (concat (map (\<lambda>s. strip (text s) @ [0x20]) snippets)))"
proof -
  let ?text = "concat (map (\<lambda>s. strip (text s) @ [0x20]) snippets)"
  obtain w2 where f: "files w2 = files w"
    and mt: "main_try e vid pf m url w =
       (case load_transcript e vid (transcript_path_of title) w2 of
          (Inl err, w3) \<Rightarrow> (Inl err, w3)
        | (Inr tt, w3) \<Rightarrow> summarize_and_save e title pf m tt w3)"
    unfolding assms(1) using main_try_stages[of w url e vid pf m] by blast
  let ?L = "load_transcript e vid (transcript_path_of title) w2"
  have n: "files w2 (transcript_path_of title) = None" using f assms(2) by simp
  have r: "fst ?L = Inr ?text"
    using n transcript_path_nonempty assms(3-6) by (rule load_transcript_miss_fetched(1))
  have s: "files (snd ?L) = (files w2)(transcript_path_of title \<mapsto> Text ?text)"
    using n transcript_path_nonempty assms(3-6) by (rule load_transcript_miss_fetched(2))
  have "main_try e vid pf m url w = summarize_and_save e title pf m ?text (snd ?L)"
    using r by (simp add: mt case_prod_beta)
  then have "files (snd (main_try e vid pf m url w)) (transcript_path_of title) =
          files (snd (summarize_and_save e title pf m ?text (snd ?L))) (transcript_path_of title)"
    by simp
  also have "\<dots> = files (snd ?L) (transcript_path_of title)"
    by (rule files_summarize_and_save_other)
       (use assms(1) run_paths_differ[of e url w m] in simp)
  finally show ?thesis using s by simp
qed

lemma transcript_saved:
  assumes "2 \<le> length argv"
    and "title = fst (get_video_title e (watch_url (argv ! 1)) w)"
    and "files w (transcript_path_of title) = None"
    and "fetch e (argv ! 1) = Inr snippets"
    and "os_makedirs e (dirname (transcript_path_of title)) = Inr ()"
    and "open_error e (transcript_path_of title) = None"
    and "list_all (\<lambda>s. encodable (strip (text s))) snippets"
  shows "files (snd (main e argv w)) (transcript_path_of title) =
           Some (Text (concat (map (\<lambda>s. strip (text s) @ [0x20]) snippets)))"
  unfolding files_main[OF assms(1)] using assms(2-7) by (rule main_try_transcript_saved)

lemma summary_written:
  assumes "2 \<le> length argv"
    and "title = fst (get_video_title e (watch_url (argv ! 1)) w)"
    and "transcript_available e (argv ! 1) title w"
    and "\<And>p t w0. fst (summarize_with_ollama e p t (ollama_model_arg argv) w0) = Inr s"
    and "encodable s"
    and "can_write e w (summary_path_of title (ollama_model_arg argv))"
  shows "files (snd (main e argv w)) (summary_path_of title (ollama_model_arg argv)) =
           Some (Text s)"
    and "last (stdout (snd (main e argv w))) =
           [0x0A, 0x2705] @ str '' Summary saved as '' @
           summary_path_of title (ollama_model_arg argv)"
proof -
  show "files (snd (main e argv w)) (summary_path_of title (ollama_model_arg argv)) =
           Some (Text s)"
    unfolding files_main[OF assms(1)] using assms(2-6) by (rule main_try_summarized(2))
  have "fst (main_try e (argv ! 1) (prompt_file_arg argv) (ollama_model_arg argv)
               (watch_url (argv ! 1)) w) = Inr ()"
    using assms(2-6) by (rule main_try_summarized(1))
  then have "stdout (snd (main e argv w)) =
           stdout (snd (main_try e (argv ! 1) (prompt_file_arg argv) (ollama_model_arg argv)
                   (watch_url (argv ! 1)) w))"
    by (rule stdout_main_done[OF assms(1)])
  moreover have "last (stdout (snd (main_try e (argv ! 1) (prompt_file_arg argv)
                   (ollama_model_arg argv) (watch_url (argv ! 1)) w))) =
           [0x0A, 0x2705] @ str '' Summary saved as '' @
           summary_path_of title (ollama_model_arg argv)"
    using assms(2-6) by (rule main_try_summarized(3))
  ultimately show "last (stdout (snd (main e argv w))) =
           [0x0A, 0x2705] @ str '' Summary saved as '' @
           summary_path_of title (ollama_model_arg argv)"
    by simp
qed

section \<open>The example runs, evaluated\<close>

lemma example_length: "2 \<le> length example_argv"
  by (simp add: example_argv_def)


lemma example_model: "ollama_model_arg example_argv = str ''gemma3''"
  by (simp add: ollama_model_arg_def example_argv_def DEFAULT_OLLAMA_MODEL_def)

lemma example_title:
  "fst (get_video_title (example_env sn reply) u w) = str ''Intro_Part_1''"
  by (simp add: get_video_title_def extract_title_def example_env_def Let_def
      sanitize_filename_def replace_def strip_def isspace_def forbidden_def str_def)

lemma example_title_run:
  "str ''Intro_Part_1'' =
     fst (get_video_title (example_env sn reply) (watch_url (example_argv ! 1)) w)"
  by (simp only: example_title)

lemma example_transcript_path:
  "transcript_path_of (str ''Intro_Part_1'') = str ''transcripts/Intro_Part_1_transcript.txt''"
  by (simp add: transcript_path_of_def path_join_def TRANSCRIPTS_DIR_def str_def)

lemma example_summary_path:
  "summary_path_of (str ''Intro_Part_1'') (ollama_model_arg example_argv) =
     str ''summaries/Intro_Part_1_summary_gemma3.txt''"
  by (simp add: summary_path_of_def path_join_def SUMMARIES_DIR_def str_def example_model)

lemma example_transcript_dir:
  "os_makedirs (example_env sn reply) (dirname (transcript_path_of (str ''Intro_Part_1''))) =
     Inr ()"
  by (simp add: example_transcript_path)
     (simp add: os_makedirs_def dirname_def example_env_def str_def)

lemma example_summary_dir:
  "os_makedirs (example_env sn reply)
     (dirname (summary_path_of (str ''Intro_Part_1'') (ollama_model_arg example_argv))) = Inr ()"
  by (simp add: example_summary_path)
     (simp add: os_makedirs_def dirname_def example_env_def str_def)

lemma example_transcript_written:
  "concat (map (\<lambda>s. strip (text s) @ [0x20]) example_transcript) = str ''hello world ''"
  by (simp add: example_transcript_def strip_def isspace_def str_def)

lemma example_transcript_encodable:
  "list_all (\<lambda>s. encodable (strip (text s))) example_transcript"
  by (simp add: example_transcript_def strip_def isspace_def str_def encodable_def)

lemma example_open: "open_error (example_env sn reply) path = None"
  by (simp add: example_env_def)

lemma example_lines:
  "lines_encodable (example_env sn reply) example_argv"
  by (simp add: lines_encodable_def extract_title_def example_env_def example_argv_def
      ollama_model_arg_def DEFAULT_OLLAMA_MODEL_def watch_url_def sanitize_filename_def
      replace_def strip_def isspace_def forbidden_def encodable_def str_def)

lemma example_plain_model: "0x2F \<notin> set (ollama_model_arg example_argv)"
  by (simp add: ollama_model_arg_def example_argv_def DEFAULT_OLLAMA_MODEL_def str_def)

lemma example_transcript_spec:
  "transcript_spec example_transcript = str ''hello world''"
  by (simp add: transcript_spec_def example_transcript_def strip_def isspace_def str_def)

lemma example_miss:
  "files empty_world (transcript_path_of (str ''Intro_Part_1'')) = None"
  by (simp add: empty_world_def)

lemma example_fetch:
  "fetch (example_env sn reply) (example_argv ! 1) = Inr sn"
  by (simp add: example_env_def)

lemma example_post:
  "post (example_env sn reply) OLLAMA_URL request = Inr reply"
  by (simp add: example_env_def)

lemma example_available:
  "transcript_available (example_env example_transcript reply) (example_argv ! 1)
     (str ''Intro_Part_1'') empty_world"
  using example_transcript_encodable
  by (simp only: transcript_available_def example_miss example_fetch example_transcript_dir
      example_open)
     simp

lemma example_transcript_writable:
  "can_write (example_env sn reply) empty_world (transcript_path_of (str ''Intro_Part_1''))"
  by (simp add: can_write_def example_transcript_dir example_open example_miss)

lemma example_no_summary:
  "files empty_world (summary_path_of (str ''Intro_Part_1'') (ollama_model_arg example_argv)) =
     None"
  by (simp add: empty_world_def)

lemma example_summary_writable:
  "can_write (example_env sn reply) empty_world
     (summary_path_of (str ''Intro_Part_1'') (ollama_model_arg example_argv))"
  by (simp add: can_write_def example_summary_dir example_open example_no_summary)







section \<open>The cache\<close>






section \<open>The transcript file\<close>

text \<open>
  Claim C2 makes the saved file the trimmed texts joined with single spaces. The program
  writes every trimmed text followed by a space, so the file ends with a space that the
  joined text does not have: for the snippets \<open>" hello "\<close> and \<open>"world"\<close> the file holds
  \<open>"hello world "\<close>, and the joined text is \<open>"hello world"\<close>.
\<close>

theorem saved_transcript_is_not_space_joined_counterexample:
  "files (snd (main (example_env example_transcript (reply_with 200 [] [])) example_argv
                 empty_world))
     (str ''transcripts/Intro_Part_1_transcript.txt'') = Some (Text (str ''hello world '')) \<and>
   files (snd (main (example_env example_transcript (reply_with 200 [] [])) example_argv
                 empty_world))
     (str ''transcripts/Intro_Part_1_transcript.txt'') \<noteq>
     Some (Text (transcript_spec example_transcript))"
proof -
  have "files (snd (main (example_env example_transcript (reply_with 200 [] [])) example_argv
                 empty_world))
     (transcript_path_of (str ''Intro_Part_1'')) =
       Some (Text (concat (map (\<lambda>s. strip (text s) @ [0x20]) example_transcript)))"
    using example_length example_title_run example_miss example_fetch example_transcript_dir
      example_open example_transcript_encodable
    by (rule transcript_saved)
  then have "files (snd (main (example_env example_transcript (reply_with 200 [] [])) example_argv
                 empty_world))
     (str ''transcripts/Intro_Part_1_transcript.txt'') = Some (Text (str ''hello world ''))"
    by (simp only: example_transcript_path example_transcript_written)
  moreover have "str ''hello world '' \<noteq> transcript_spec example_transcript"
    by (simp add: example_transcript_spec) (simp add: str_def)
  ultimately show ?thesis by simp
qed

text \<open>
  Claim C2, amended. On a transcript cache miss, when the transcript is fetched, its file
  can be written, UTF-8 can encode the trimmed texts and the lines of the run, and the
  model name has no slash, the saved file holds each snippet's trimmed text followed by one space, in the snippets'
  order: nothing for no snippets, and otherwise the space-joined trimmed texts with one
  more space at the end.
\<close>

theorem saved_transcript_has_trailing_space:
  assumes "2 \<le> length argv"
    and "title = fst (get_video_title e (watch_url (argv ! 1)) w)"
    and "0x2F \<notin> set (ollama_model_arg argv)"
    and "files w (transcript_path_of title) = None"
    and "fetch e (argv ! 1) = Inr snippets"
    and "can_write e w (transcript_path_of title)"
    and "list_all (\<lambda>s. encodable (strip (text s))) snippets"
    and "lines_encodable e argv"
  shows "files (snd (main e argv w)) (transcript_path_of title) =
           Some (Text (if snippets = [] then [] else transcript_spec snippets @ [0x20]))"
proof -
  have "concat (map (\<lambda>s. strip (text s) @ [0x20]) snippets) =
          concat (map (\<lambda>x. x @ [0x20]) (map (\<lambda>s. strip (text s)) snippets))"
    by (simp add: comp_def)
  then have j: "concat (map (\<lambda>s. strip (text s) @ [0x20]) snippets) =
           (if snippets = [] then [] else transcript_spec snippets @ [0x20])"
    by (simp only: concat_space_join transcript_spec_def) simp
  from assms(6) have d: "os_makedirs e (dirname (transcript_path_of title)) = Inr ()"
    and o: "open_error e (transcript_path_of title) = None"
    by (simp_all add: can_write_def)
  have "files (snd (main e argv w)) (transcript_path_of title) =
          Some (Text (concat (map (\<lambda>s. strip (text s) @ [0x20]) snippets)))"
    using assms(1,2,4,5) d o assms(7) by (rule transcript_saved)
  then show ?thesis by (simp only: j)
qed

text \<open>
  The amended claim C2 on the example: the file holds \<open>"hello world "\<close>.
\<close>

theorem saved_transcript_has_trailing_space_witness:
  "files (snd (main (example_env example_transcript (reply_with 200 [] [])) example_argv
                 empty_world))
     (str ''transcripts/Intro_Part_1_transcript.txt'') = Some (Text (str ''hello world ''))"
proof -
  have "example_transcript \<noteq> []" by (simp add: example_transcript_def)
  moreover have "transcript_spec example_transcript @ [0x20] = str ''hello world ''"
    by (simp add: example_transcript_spec) (simp add: str_def)
  ultimately show ?thesis
    using saved_transcript_has_trailing_space[OF example_length example_title_run
        example_plain_model example_miss example_fetch example_transcript_writable
        example_transcript_encodable example_lines, of "reply_with 200 [] []"]
    by (simp only: example_transcript_path if_False)
qed

section \<open>The summary and the inference endpoint\<close>

text \<open>
  Claim C6. When the transcript is available and the endpoint answers status 200 with a
  JSON object whose \<open>response\<close> field is the string \<open>r\<close>, the run leaves the trimmed
  \<open>r\<close> in the summary file of its title and model, provided that the lines of the run
  and the trimmed \<open>r\<close> can be printed (UTF-8 can encode them) and that the summary file
  can be written.
\<close>

theorem summary_file_is_trimmed_response:
  assumes "2 \<le> length argv"
    and "title = fst (get_video_title e (watch_url (argv ! 1)) w)"
    and "transcript_available e (argv ! 1) title w"
    and "\<And>request. post e OLLAMA_URL request = Inr reply"
    and "status_code reply = 200"
    and "json reply = Inr (PyDict result)"
    and "map_of result (str ''response'') = Some (PyStr r)"
    and "encodable (strip r)"
    and "can_write e w (summary_path_of title (ollama_model_arg argv))"
    and "lines_encodable e argv"
  shows "files (snd (main e argv w)) (summary_path_of title (ollama_model_arg argv)) =
           Some (Text (strip r))"
proof -
  have "fst (summarize_with_ollama e p t (ollama_model_arg argv) w0) = Inr (strip r)" for p t w0
    using assms(4-7) by (rule fst_summarize_response)
  with assms(1-3) show ?thesis using assms(8,9) by (rule summary_written(1))
qed

text \<open>
  Claim C6 on the example, with the answer \<open>" hello "\<close>: the summary file holds
  \<open>"hello"\<close>.
\<close>

theorem summary_file_is_trimmed_response_witness:
  "files (snd (main (example_env example_transcript
                  (reply_with 200 [] [(str ''response'', PyStr (str '' hello ''))]))
               example_argv empty_world))
     (str ''summaries/Intro_Part_1_summary_gemma3.txt'') = Some (Text (str ''hello''))"
proof -
  let ?reply = "reply_with 200 [] [(str ''response'', PyStr (str '' hello ''))]"
  have 5: "status_code ?reply = 200" by (simp add: reply_with_def)
  have 6: "json ?reply = Inr (PyDict [(str ''response'', PyStr (str '' hello ''))])"
    by (simp add: reply_with_def)
  have 7: "map_of [(str ''response'', PyStr (str '' hello ''))] (str ''response'') =
             Some (PyStr (str '' hello ''))"
    by simp
  have st: "strip (str '' hello '') = str ''hello''"
    by (simp add: strip_def isspace_def str_def)
  have 8: "encodable (strip (str '' hello ''))"
    by (simp only: st) (simp add: encodable_def str_def)
  show ?thesis
    using summary_file_is_trimmed_response[OF example_length example_title_run example_available
        example_post 5 6 7 8 example_summary_writable example_lines] st
    by (simp only: example_summary_path)
qed

text \<open>
  Claim C9. When the endpoint answers status 200 with a JSON object that has no
  \<open>response\<close> field, the summarizer returns the empty string and raises nothing; a run
  whose transcript is available, whose lines can be printed and whose summary file can be
  written then ends with the line that reports the saved summary, exits with status 0 and
  leaves an empty summary file.
\<close>

theorem missing_response_field_gives_empty_summary:
  assumes "2 \<le> length argv"
    and "title = fst (get_video_title e (watch_url (argv ! 1)) w)"
    and "transcript_available e (argv ! 1) title w"
    and "\<And>request. post e OLLAMA_URL request = Inr reply"
    and "status_code reply = 200"
    and "json reply = Inr (PyDict result)"
    and "map_of result (str ''response'') = None"
    and "can_write e w (summary_path_of title (ollama_model_arg argv))"
    and "lines_encodable e argv"
  shows "fst (summarize_with_ollama e prompt_text transcript_text model_name w') = Inr [] \<and>
         fst (main e argv w) = 0 \<and>
         files (snd (main e argv w)) (summary_path_of title (ollama_model_arg argv)) =
           Some (Text []) \<and>
         last (stdout (snd (main e argv w))) =
           [0x0A, 0x2705] @ str '' Summary saved as '' @
           summary_path_of title (ollama_model_arg argv)"
proof -
  have s: "fst (summarize_with_ollama e p t m w0) = Inr []" for p t m w0
    using assms(4-7) by (rule fst_summarize_no_response)
  have "files (snd (main e argv w)) (summary_path_of title (ollama_model_arg argv)) =
           Some (Text [])"
    using assms(1-3) s encodable_Nil assms(8) by (rule summary_written(1))
  moreover have "last (stdout (snd (main e argv w))) =
           [0x0A, 0x2705] @ str '' Summary saved as '' @
           summary_path_of title (ollama_model_arg argv)"
    using assms(1-3) s encodable_Nil assms(8) by (rule summary_written(2))
  ultimately show ?thesis using s main_exit[OF assms(1)] by simp
qed

text \<open>
  Claim C9 on the example, with the empty JSON object as the answer.
\<close>

theorem missing_response_field_gives_empty_summary_witness:
  "fst (main (example_env example_transcript (reply_with 200 [] [])) example_argv empty_world) = 0 \<and>
   files (snd (main (example_env example_transcript (reply_with 200 [] [])) example_argv
                 empty_world))
     (str ''summaries/Intro_Part_1_summary_gemma3.txt'') = Some (Text [])"
proof -
  let ?reply = "reply_with 200 [] []"
  have 5: "status_code ?reply = 200" by (simp add: reply_with_def)
  have 6: "json ?reply = Inr (PyDict [])" by (simp add: reply_with_def)
  have 7: "map_of ([] :: (pystr \<times> pyval) list) (str ''response'') = None" by simp
  show ?thesis
    using missing_response_field_gives_empty_summary[OF example_length example_title_run
        example_available example_post 5 6 7 example_summary_writable example_lines]
    by (simp only: example_summary_path)
qed



section \<open>The title and the prompt\<close>

text \<open>
  Claim C7. \<open>get_video_title\<close> returns a string for every video and raises nothing: when
  the lookup raises, when the information has no title, and on any other failure it is
  the literal \<open>unknown_title\<close>; when the information has a title string, it is the
  sanitized title.
\<close>

theorem get_video_title_total:
  "fst (get_video_title e video_url w) =
     (case extract_info e video_url of
        Inl err \<Rightarrow> str ''unknown_title''
      | Inr (PyDict info) \<Rightarrow>
          (case map_of info (str ''title'') of
             None \<Rightarrow> str ''unknown_title''
           | Some (PyStr title) \<Rightarrow> sanitize_filename title
           | Some v \<Rightarrow> str ''unknown_title'')
      | Inr v \<Rightarrow> str ''unknown_title'')"
  by (simp add: get_video_title_def extract_title_def Let_def unknown_title_sanitized
      split: sum.splits pyval.splits option.splits)



end
